theory Spec2Isabelle
  imports Complex_Main "HOL-Library.Word"
begin

section \<open>JavaScript values and coercions used by the handlers\<close>

text \<open>
  The request bodies are JSON. A field that may be missing is an \<open>option\<close>
  (\<open>None\<close> is JavaScript's \<open>undefined\<close>). A string is falsy exactly when it is
  missing or empty; \<open>a || b\<close> yields \<open>a\<close> when \<open>a\<close> is truthy and \<open>b\<close> otherwise.
\<close>

definition truthy :: "string option \<Rightarrow> bool" where
  "truthy v = (case v of None \<Rightarrow> False | Some s \<Rightarrow> s \<noteq> [])"

definition or_else :: "string option \<Rightarrow> string option \<Rightarrow> string option" where
  "or_else a b = (if truthy a then a else b)"

definition or_default :: "string option \<Rightarrow> string \<Rightarrow> string" where
  "or_default a d = (case a of None \<Rightarrow> d | Some s \<Rightarrow> if s \<noteq> [] then s else d)"

text \<open>
  \<open>BigInt(s)\<close> on a string: surrounding white space is dropped, the empty string is
  \<open>0n\<close>, a decimal literal may carry a sign, and the prefixes \<open>0x\<close>, \<open>0o\<close>, \<open>0b\<close>
  (unsigned) select another base. Anything else throws a SyntaxError. Only the ASCII
  white space characters are recognised here.
\<close>

definition is_ws :: "char \<Rightarrow> bool" where
  "is_ws c = (c \<in> set [CHR '' '', CHR 0x09, CHR 0x0A, CHR 0x0B, CHR 0x0C, CHR 0x0D])"

definition trim :: "string \<Rightarrow> string" where
  "trim s = rev (dropWhile is_ws (rev (dropWhile is_ws s)))"

definition digit_val :: "char \<Rightarrow> nat option" where
  "digit_val c =
     (let n = (of_char c :: nat) in
      if 48 \<le> n \<and> n \<le> 57 then Some (n - 48)
      else if 97 \<le> n \<and> n \<le> 102 then Some (n - 87)
      else if 65 \<le> n \<and> n \<le> 70 then Some (n - 55)
      else None)"

fun parse_digits :: "nat \<Rightarrow> nat \<Rightarrow> string \<Rightarrow> nat option" where
  "parse_digits b acc [] = Some acc"
| "parse_digits b acc (c # cs) =
     (case digit_val c of
        None \<Rightarrow> None
      | Some d \<Rightarrow> if d < b then parse_digits b (acc * b + d) cs else None)"

definition parse_literal :: "nat \<Rightarrow> string \<Rightarrow> nat option" where
  "parse_literal b s = (if s = [] then None else parse_digits b 0 s)"

definition StringToBigInt :: "string \<Rightarrow> int option" where
  "StringToBigInt s =
     (let t = trim s in
      if t = [] then Some 0
      else if take 2 t = ''0x'' \<or> take 2 t = ''0X'' then map_option int (parse_literal 16 (drop 2 t))
      else if take 2 t = ''0o'' \<or> take 2 t = ''0O'' then map_option int (parse_literal 8 (drop 2 t))
      else if take 2 t = ''0b'' \<or> take 2 t = ''0B'' then map_option int (parse_literal 2 (drop 2 t))
      else if hd t = CHR ''-'' then map_option (\<lambda>n. - int n) (parse_literal 10 (tl t))
      else if hd t = CHR ''+'' then map_option int (parse_literal 10 (tl t))
      else map_option int (parse_literal 10 t))"

definition BigInt :: "string \<Rightarrow> string + int" where
  "BigInt s =
     (case StringToBigInt s of
        None \<Rightarrow> Inl (''Cannot convert '' @ s @ '' to a BigInt'')
      | Some n \<Rightarrow> Inr n)"

text \<open>A BigInt inside a template literal is rendered in decimal.\<close>

fun show_nat :: "nat \<Rightarrow> string" where
  "show_nat n =
     (if n < 10 then [char_of (48 + n)]
      else show_nat (n div 10) @ [char_of (48 + n mod 10)])"

declare show_nat.simps [simp del]

definition show_bigint :: "int \<Rightarrow> string" where
  "show_bigint i = (if i < 0 then CHR ''-'' # show_nat (nat (- i)) else show_nat (nat i))"


section \<open>Data model\<close>

text \<open>
  A deserialized Stacks transaction, as far as the handlers read it:
  \<open>tx.auth?.spendingCondition?.signer\<close>, \<open>tx.auth?.spendingCondition?.address\<close>,
  \<open>tx.payload.amount\<close> (an unsigned 64-bit integer for a token transfer, \<open>undefined\<close>
  for any other payload) and the recipient the payload names.
\<close>

record spending_condition =
  signer :: "string option"
  address :: "string option"

record authorization =
  spendingCondition :: "spending_condition option"

record tx_payload =
  amount :: "64 word option"
  recipient :: "string option"

record stacks_tx =
  auth :: "authorization option"
  payload :: tx_payload

text \<open>
  The body of \<open>POST /verify\<close> and \<open>POST /settle\<close>. \<open>inner_transaction\<close> is
  \<open>paymentPayload.payload?.transaction\<close>, \<open>transaction\<close> is
  \<open>paymentPayload.transaction\<close>, and \<open>required_amount\<close> is \<open>paymentRequirements.amount\<close>.
\<close>

record payment_payload =
  inner_transaction :: "string option"
  transaction :: "string option"

record payment_requirements =
  required_amount :: "string option"
  payTo :: "string option"
  network :: "string option"

record facilitator_body =
  paymentPayload :: "payment_payload option"
  paymentRequirements :: "payment_requirements option"

datatype verify_body =
    VerifyInvalid string
  | VerifyValid string

datatype settle_body =
    SettleFailure string
  | SettleSuccess string "string option" string

text \<open>
  What \<open>broadcastTransaction\<close> resolves to: a bare transaction id, or an object
  carrying \<open>txid\<close> or \<open>error\<close> and \<open>reason\<close>.
\<close>

record broadcast_object =
  txid :: "string option"
  error :: "string option"
  reason :: "string option"

datatype broadcast_result =
    ResultString string
  | ResultObject broadcast_object

datatype feed_data = FeedData (stringify: string)

text \<open>
  The surroundings of the server. A left injection is a thrown exception with its
  message. \<open>axios_get url t\<close> is the outcome of the status request issued \<open>t\<close>
  milliseconds after polling began, together with the time the request took:
  \<open>None\<close> when the request throws, \<open>Some None\<close> when the reply has no
  \<open>tx_status\<close>, \<open>Some (Some s)\<close> for the status \<open>s\<close>.
\<close>

record env =
  deserializeTransaction :: "string \<Rightarrow> string + stacks_tx"
  broadcastTransaction :: "stacks_tx \<Rightarrow> string \<Rightarrow> string + broadcast_result"
  axios_get :: "string \<Rightarrow> nat \<Rightarrow> string option option \<times> nat"
  generateWhaleAlerts :: "string + feed_data"
  generateSentimentScore :: "string + feed_data"
  generateDeFiScores :: "string + feed_data"
  PROVIDER_ADDRESS :: string
  NETWORK :: string
  responseMs :: int
  date_now :: nat

text \<open>The tables \<open>queries\<close> and \<open>feed_stats\<close>, and the transactions handed to the broadcast entry point so far.\<close>

record query_row =
  row_id :: nat
  feed_id :: string
  payer :: "string option"
  tx_hash :: "string option"
  response_ms :: int
  response_data :: "string option"
  created_at :: nat

record feed_stat =
  total_queries :: nat
  total_errors :: nat
  avg_response_ms :: real
  last_query_at :: "nat option"

record world =
  queries :: "query_row list"
  last_rowid :: nat
  feed_stats :: "string \<Rightarrow> feed_stat option"
  broadcast_log :: "(stacks_tx \<times> string) list"
  unixepoch :: nat

section \<open>The facilitator: \<open>/verify\<close>, \<open>/settle\<close> and their helpers\<close>

definition truthy_val :: "string option \<Rightarrow> string option" where
  "truthy_val v = (if truthy v then v else None)"

text \<open>
  \<open>extractPayer\<close>: the signer cut to 38 characters behind \<open>ST\<close>, else the address,
  else the literal \<open>unknown\<close>. \<open>txAmount_of\<close> is \<open>BigInt(txPayload.amount || 0)\<close>.
  The handlers of \<open>facilitator.ts\<close> and their copies embedded in \<open>server.ts\<close> are the
  same code.
\<close>

definition extractPayer :: "stacks_tx \<Rightarrow> string" where
  "extractPayer tx =
     (let sc = Option.bind (auth tx) spendingCondition in
      case truthy_val (Option.bind sc signer) of
        Some s \<Rightarrow> ''ST'' @ take 38 s
      | None \<Rightarrow>
          (case truthy_val (Option.bind sc address) of
             Some a \<Rightarrow> a
           | None \<Rightarrow> ''unknown''))"

definition txHex_of :: "payment_payload \<Rightarrow> string option" where
  "txHex_of pp = truthy_val (or_else (inner_transaction pp) (transaction pp))"

definition txAmount_of :: "stacks_tx \<Rightarrow> int" where
  "txAmount_of tx =
     (case amount (payload tx) of
        None \<Rightarrow> 0
      | Some a \<Rightarrow> if a = 0 then 0 else uint a)"

definition verify :: "env \<Rightarrow> facilitator_body \<Rightarrow> nat \<times> verify_body" where
  "verify e body =
     (case (paymentPayload body, paymentRequirements body) of
        (Some pp, Some reqs) \<Rightarrow>
          (case txHex_of pp of
             None \<Rightarrow> (400, VerifyInvalid ''No transaction found in payload'')
           | Some txHex \<Rightarrow>
               (case deserializeTransaction e txHex of
                  Inl msg \<Rightarrow> (400, VerifyInvalid msg)
                | Inr tx \<Rightarrow>
                    (case BigInt (or_default (required_amount reqs) ''0'') of
                       Inl msg \<Rightarrow> (400, VerifyInvalid msg)
                     | Inr requiredAmount \<Rightarrow>
                         (let txAmount = txAmount_of tx
                          in if txAmount < requiredAmount
                             then (200, VerifyInvalid (''Insufficient: tx='' @ show_bigint txAmount
                                                        @ '' required='' @ show_bigint requiredAmount))
                             else (200, VerifyValid (extractPayer tx))))))
      | _ \<Rightarrow> (400, VerifyInvalid ''Missing paymentPayload or paymentRequirements''))"

text \<open>
  \<open>waitForTx\<close>. \<open>elapsed\<close> is \<open>Date.now() - start\<close> at the head of the loop. One
  round issues the status request, returns \<open>true\<close> on the status \<open>success\<close> and
  \<open>false\<close> on a status that starts with \<open>abort\<close>, and otherwise (any other
  status, no status, or a failed request) sleeps 5000 ms; the next round starts after the
  duration of the request and the sleep. Leaving the loop by the timeout returns
  \<open>false\<close>. The loop ends because \<open>elapsed\<close> grows by at least 5000 each round.
\<close>

definition is_abort :: "string option option \<Rightarrow> bool" where
  "is_abort res = (case res of Some (Some status) \<Rightarrow> take 5 status = ''abort'' | _ \<Rightarrow> False)"

function waitForTx :: "env \<Rightarrow> string \<Rightarrow> string \<Rightarrow> nat \<Rightarrow> nat \<Rightarrow> bool" where
  "waitForTx e apiUrl txId timeoutMs elapsed =
     (if elapsed < timeoutMs then
        (let r = axios_get e (apiUrl @ ''/extended/v1/tx/'' @ txId) elapsed in
         if fst r = Some (Some ''success'') then True
         else if is_abort (fst r) then False
         else waitForTx e apiUrl txId timeoutMs (elapsed + snd r + 5000))
      else False)"
  by pat_completeness auto
termination
  by (relation "measure (\<lambda>(e, apiUrl, txId, timeoutMs, elapsed). timeoutMs - elapsed)") auto

declare waitForTx.simps [simp del]

definition STACKS_API_TESTNET :: string where
  "STACKS_API_TESTNET = ''https://api.testnet.hiro.so''"

definition STACKS_API_MAINNET :: string where
  "STACKS_API_MAINNET = ''https://api.hiro.so''"

definition template :: "string option \<Rightarrow> string" where
  "template v = (case v of None \<Rightarrow> ''undefined'' | Some s \<Rightarrow> s)"

definition networkId_of :: "payment_requirements \<Rightarrow> string" where
  "networkId_of reqs = or_default (network reqs) ''stacks:2147483648''"

definition apiUrl_of :: "string \<Rightarrow> string" where
  "apiUrl_of networkId =
     (let isMainnet = (networkId = ''stacks:1'')
      in if isMainnet then STACKS_API_MAINNET else STACKS_API_TESTNET)"

definition result_txid :: "broadcast_result \<Rightarrow> string option" where
  "result_txid result = (case result of ResultString s \<Rightarrow> Some s | ResultObject ob \<Rightarrow> txid ob)"

definition result_error :: "broadcast_result \<Rightarrow> string option" where
  "result_error result = (case result of ResultString s \<Rightarrow> None | ResultObject ob \<Rightarrow> error ob)"

definition result_reason :: "broadcast_result \<Rightarrow> string option" where
  "result_reason result = (case result of ResultString s \<Rightarrow> None | ResultObject ob \<Rightarrow> reason ob)"

text \<open>
  \<open>/settle\<close>. \<open>result_txid\<close> is \<open>typeof result === 'string' ? result : result.txid\<close>,
  \<open>result_error\<close> is \<open>typeof result === 'object' ? result.error : null\<close>, and the
  reason of a rejection is \<open>result.reason || error\<close>. Every transaction handed to the
  broadcast entry point is appended to \<open>broadcast_log\<close>. The outcome of the polling
  is bound to \<open>confirmed\<close> and used for a console line only; the handler never reads or
  writes the query ledger.
\<close>

definition settle :: "env \<Rightarrow> world \<Rightarrow> facilitator_body \<Rightarrow> (nat \<times> settle_body) \<times> world" where
  "settle e w body =
     (case (paymentPayload body, paymentRequirements body) of
        (Some pp, Some reqs) \<Rightarrow>
          (case txHex_of pp of
             None \<Rightarrow> ((400, SettleFailure ''No transaction in payload''), w)
           | Some txHex \<Rightarrow>
               (let networkId = networkId_of reqs;
                    apiUrl = apiUrl_of networkId
                in case deserializeTransaction e txHex of
                     Inl msg \<Rightarrow> ((500, SettleFailure msg), w)
                   | Inr tx \<Rightarrow>
                       (let payer = extractPayer tx;
                            w1 = w\<lparr>broadcast_log := broadcast_log w @ [(tx, apiUrl)]\<rparr>
                        in case broadcastTransaction e tx apiUrl of
                             Inl msg \<Rightarrow> ((500, SettleFailure msg), w1)
                           | Inr result \<Rightarrow>
                               (let txId = result_txid result;
                                    err = result_error result
                                in case truthy_val err of
                                     Some er \<Rightarrow>
                                       ((400, SettleFailure (or_default (result_reason result) er)), w1)
                                   | None \<Rightarrow>
                                       (let confirmed = waitForTx e apiUrl (template txId) 180000 0
                                        in ((200, SettleSuccess payer txId networkId), w1))))))
      | _ \<Rightarrow> ((400, SettleFailure ''Missing payload or requirements''), w))"


section \<open>The query ledger and the resource server\<close>

text \<open>
  \<open>recordQuery\<close> runs one transaction: an \<open>INSERT\<close> into \<open>queries\<close> (the id is
  the next AUTOINCREMENT value, \<open>created_at\<close> defaults to the current epoch second) and an
  \<open>UPDATE\<close> of the feed's row in \<open>feed_stats\<close>, which leaves the table alone when
  the feed has no row. The table \<open>queries\<close> carries no uniqueness constraint besides
  its primary key.
\<close>

definition recordQuery ::
  "world \<Rightarrow> string \<Rightarrow> string option \<Rightarrow> string option \<Rightarrow> int \<Rightarrow> feed_data option \<Rightarrow> world" where
  "recordQuery w feedId payr txHash ms responseData =
     (let dataJson = map_option stringify responseData;
          row = \<lparr>row_id = last_rowid w + 1, feed_id = feedId, payer = truthy_val payr,
                 tx_hash = truthy_val txHash, response_ms = ms, response_data = dataJson,
                 created_at = unixepoch w\<rparr>;
          stats = (case feed_stats w feedId of
                     None \<Rightarrow> feed_stats w
                   | Some st \<Rightarrow>
                       (feed_stats w)(feedId \<mapsto>
                          st\<lparr>total_queries := total_queries st + 1,
                             avg_response_ms :=
                               (avg_response_ms st * real (total_queries st) + real_of_int ms)
                                 / real (total_queries st + 1),
                             last_query_at := Some (unixepoch w)\<rparr>))
      in w\<lparr>queries := queries w @ [row], last_rowid := last_rowid w + 1, feed_stats := stats\<rparr>)"

text \<open>
  The JSON a released feed is answered with; a field that is left out is \<open>None\<close>,
  and \<open>json_tx\<close> is the key \<open>tx\<close>.
\<close>

record feed_json =
  feed :: string
  provider :: string
  price :: "string option"
  timestamp :: nat
  paid_by :: string
  json_tx :: "string option"
  tx_explorer :: "string option"
  wallet_payment :: "bool option"
  data :: feed_data

text \<open>What \<open>getPayment(req)\<close> hands to a paid route once the middleware has let the request through.\<close>

record payment =
  payment_payer :: "string option"
  payment_transaction :: "string option"

text \<open>
  The three paid routes differ in the feed name, the price text and the generator only.
  An exception of the generator leaves the handler before anything is recorded.
\<close>

definition feedHandler ::
  "string \<Rightarrow> string \<Rightarrow> (env \<Rightarrow> string + feed_data) \<Rightarrow> env \<Rightarrow> world \<Rightarrow> payment option
     \<Rightarrow> (string + feed_json) \<times> world" where
  "feedHandler name priceText generate e w pay =
     (case generate e of
        Inl msg \<Rightarrow> (Inl msg, w)
      | Inr d \<Rightarrow>
          (let w1 = recordQuery w name (Option.bind pay payment_payer)
                      (Option.bind pay payment_transaction) (responseMs e) (Some d)
           in (Inr \<lparr>feed = name, provider = PROVIDER_ADDRESS e, price = Some priceText,
                     timestamp = date_now e,
                     paid_by = or_default (Option.bind pay payment_payer) ''unknown'',
                     json_tx = truthy_val (Option.bind pay payment_transaction),
                     tx_explorer = None, wallet_payment = None, data = d\<rparr>, w1)))"

definition feeds_whale_alerts :: "env \<Rightarrow> world \<Rightarrow> payment option \<Rightarrow> (string + feed_json) \<times> world" where
  "feeds_whale_alerts = feedHandler ''whale-alerts'' ''0.005 STX'' generateWhaleAlerts"

definition feeds_btc_sentiment :: "env \<Rightarrow> world \<Rightarrow> payment option \<Rightarrow> (string + feed_json) \<times> world" where
  "feeds_btc_sentiment = feedHandler ''btc-sentiment'' ''0.003 STX'' generateSentimentScore"

definition feeds_defi_scores :: "env \<Rightarrow> world \<Rightarrow> payment option \<Rightarrow> (string + feed_json) \<times> world" where
  "feeds_defi_scores = feedHandler ''defi-scores'' ''0.01 STX'' generateDeFiScores"

subsection \<open>\<open>POST /wallet/buy\<close>\<close>

record wallet_request =
  feedId :: "string option"
  txId :: "string option"
  senderAddress :: "string option"

datatype wallet_body =
    WalletError string "string option"
  | WalletOk feed_json

definition validFeeds :: "string list" where
  "validFeeds = [''whale-alerts'', ''btc-sentiment'', ''defi-scores'']"

definition feedPrices :: "string \<Rightarrow> string option" where
  "feedPrices = map_of [(''whale-alerts'', ''0.005 STX''), (''btc-sentiment'', ''0.003 STX''),
                        (''defi-scores'', ''0.01 STX'')]"

definition generate_feed :: "env \<Rightarrow> string \<Rightarrow> string + feed_data" where
  "generate_feed e f =
     (if f = ''whale-alerts'' then generateWhaleAlerts e
      else if f = ''btc-sentiment'' then generateSentimentScore e
      else generateDeFiScores e)"

definition wallet_buy :: "env \<Rightarrow> world \<Rightarrow> wallet_request \<Rightarrow> (nat \<times> wallet_body) \<times> world" where
  "wallet_buy e w req =
     (case (truthy_val (feedId req), truthy_val (txId req), truthy_val (senderAddress req)) of
        (Some f, Some t, Some sender) \<Rightarrow>
          if f \<notin> set validFeeds then ((400, WalletError ''Invalid feed ID'' None), w)
          else
            (case generate_feed e f of
               Inl msg \<Rightarrow> ((500, WalletError ''Failed to generate feed data'' (Some msg)), w)
             | Inr d \<Rightarrow>
                 (let w1 = recordQuery w f (Some sender) (Some t) (responseMs e) (Some d)
                  in ((200, WalletOk \<lparr>feed = f, provider = PROVIDER_ADDRESS e, price = feedPrices f,
                                       timestamp = date_now e, paid_by = sender, json_tx = Some t,
                                       tx_explorer = Some (''https://explorer.hiro.so/txid/'' @ t
                                                            @ ''?chain='' @ NETWORK e),
                                       wallet_payment = Some True, data = d\<rparr>), w1)))
      | _ \<Rightarrow> ((400, WalletError ''Missing feedId, txId, or senderAddress'' None), w))"

subsection \<open>The access gate\<close>

datatype gate_outcome =
    CHALLENGED payment_requirements
  | DENIED string
  | RELEASED feed_json
  | HANDLER_FAILED string

text \<open>
  Modelled from the spec: the middleware \<open>paymentMiddleware\<close> that guards the paid
  routes comes from the package \<open>x402-stacks\<close> and is not part of the sources. The gate
  below follows section 4.4 of the specification: without a proof it answers with the
  challenge; with a proof it verifies, then settles, denies on any failure of either, and
  otherwise passes the settled payer and transaction id to the route's handler, whose
  answer is released.
\<close>

definition access_gate ::
  "payment_requirements \<Rightarrow> (env \<Rightarrow> world \<Rightarrow> payment option \<Rightarrow> (string + feed_json) \<times> world)
     \<Rightarrow> env \<Rightarrow> world \<Rightarrow> payment_payload option \<Rightarrow> gate_outcome \<times> world" where
  "access_gate requirement handler e w submitted =
     (case submitted of
        None \<Rightarrow> (CHALLENGED requirement, w)
      | Some pp \<Rightarrow>
          (let body = \<lparr>paymentPayload = Some pp, paymentRequirements = Some requirement\<rparr>
           in case snd (verify e body) of
                VerifyInvalid why \<Rightarrow> (DENIED why, w)
              | VerifyValid p \<Rightarrow>
                  (case settle e w body of
                     ((code, SettleFailure why), w1) \<Rightarrow> (DENIED why, w1)
                   | ((code, SettleSuccess p' t net), w1) \<Rightarrow>
                       (case handler e w1 (Some \<lparr>payment_payer = Some p', payment_transaction = t\<rparr>) of
                          (Inl msg, w2) \<Rightarrow> (HANDLER_FAILED msg, w2)
                        | (Inr js, w2) \<Rightarrow> (RELEASED js, w2)))))"


section \<open>Observations and sample surroundings\<close>

text \<open>The rows the query ledger holds for one resource and one transaction id.\<close>

definition records_for :: "world \<Rightarrow> string \<Rightarrow> string option \<Rightarrow> query_row list" where
  "records_for w f t = filter (\<lambda>r. feed_id r = f \<and> tx_hash r = t) (queries w)"

text \<open>
  A ledger whose status endpoint answers \<open>pending\<close> before the instant \<open>T\<close> and the
  terminal status \<open>final\<close> from \<open>T\<close> on, every request taking \<open>d\<close> milliseconds.
\<close>

definition turns_at :: "string \<Rightarrow> nat \<Rightarrow> nat \<Rightarrow> nat \<Rightarrow> string option option \<times> nat" where
  "turns_at final T d t = (Some (Some (if t < T then ''pending'' else final)), d)"

definition sample_env ::
  "stacks_tx \<Rightarrow> string + broadcast_result \<Rightarrow> (nat \<Rightarrow> string option option \<times> nat) \<Rightarrow> env" where
  "sample_env tx b st =
     \<lparr>deserializeTransaction = (\<lambda>h. if h = ''00'' then Inr tx else Inl ''Could not deserialize''),
      broadcastTransaction = (\<lambda>t u. b),
      axios_get = (\<lambda>u t. st t),
      generateWhaleAlerts = Inr (FeedData ''whales''),
      generateSentimentScore = Inr (FeedData ''sentiment''),
      generateDeFiScores = Inr (FeedData ''defi''),
      PROVIDER_ADDRESS = ''ST1PROVIDER'',
      NETWORK = ''testnet'',
      responseMs = 12,
      date_now = 1700000000000\<rparr>"

definition finalizing_env :: "nat \<Rightarrow> nat \<Rightarrow> env" where
  "finalizing_env T d =
     sample_env \<lparr>auth = None, payload = \<lparr>amount = None, recipient = None\<rparr>\<rparr>
       (Inr (ResultString ''0xabc'')) (turns_at ''success'' T d)"

definition signed_tx :: "64 word \<Rightarrow> stacks_tx" where
  "signed_tx a =
     \<lparr>auth = Some \<lparr>spendingCondition =
               Some \<lparr>signer = Some ''6d78de7b0625dfbfc16c3a8a5735f6dc3dc3f2ce'', address = None\<rparr>\<rparr>,
      payload = \<lparr>amount = Some a, recipient = Some ''ST2OTHER''\<rparr>\<rparr>"

definition unsigned_tx :: stacks_tx where
  "unsigned_tx = \<lparr>auth = None, payload = \<lparr>amount = Some 5000, recipient = Some ''ST1PROVIDER''\<rparr>\<rparr>"

definition sample_proof :: payment_payload where
  "sample_proof = \<lparr>inner_transaction = Some ''00'', transaction = None\<rparr>"

definition sample_requirement :: "string option \<Rightarrow> payment_requirements" where
  "sample_requirement a =
     \<lparr>required_amount = a, payTo = Some ''ST1PROVIDER'', network = Some ''stacks:2147483648''\<rparr>"

definition sample_body :: "string option \<Rightarrow> facilitator_body" where
  "sample_body a = \<lparr>paymentPayload = Some sample_proof, paymentRequirements = Some (sample_requirement a)\<rparr>"

definition accepted :: "string + broadcast_result" where
  "accepted = Inr (ResultObject \<lparr>txid = Some ''0xabc'', error = None, reason = None\<rparr>)"

definition rejected :: "string + broadcast_result" where
  "rejected = Inr (ResultObject \<lparr>txid = None, error = Some ''transaction rejected'',
                                  reason = Some ''ConflictingNonceInMempool''\<rparr>)"

definition empty_world :: world where
  "empty_world =
     \<lparr>queries = [], last_rowid = 0,
      feed_stats = map_of (map (\<lambda>f. (f, \<lparr>total_queries = 0, total_errors = 0, avg_response_ms = 0,
                                           last_query_at = None\<rparr>)) validFeeds),
      broadcast_log = [], unixepoch = 1700000000\<rparr>"

definition recorded_world :: world where
  "recorded_world =
     recordQuery empty_world ''whale-alerts'' (Some ''ST6d78de7b0625dfbfc16c3a8a5735f6dc3dc3f2'')
       (Some ''0xabc'') 12 (Some (FeedData ''whales''))"

definition sample_purchase :: wallet_request where
  "sample_purchase = \<lparr>feedId = Some ''whale-alerts'', txId = Some ''0xabc'', senderAddress = Some ''ST3BUYER''\<rparr>"


section \<open>The verifier\<close>

lemma BigInt_zero: "BigInt ''0'' = Inr 0"
  by (simp add: BigInt_def StringToBigInt_def trim_def is_ws_def parse_literal_def digit_val_def)

lemma BigInt_5000: "BigInt ''5000'' = Inr 5000"
  by (simp add: BigInt_def StringToBigInt_def trim_def is_ws_def parse_literal_def digit_val_def)

lemma show_bigint_3000: "show_bigint 3000 = ''3000''"
  by code_simp

lemma show_bigint_5000: "show_bigint 5000 = ''5000''"
  by code_simp

lemma txAmount_of_nonneg: "0 \<le> txAmount_of tx"
  by (simp add: txAmount_of_def split: option.split)

lemma txAmount_of_Some: "amount (payload tx) = Some a \<Longrightarrow> txAmount_of tx = uint a"
  by (simp add: txAmount_of_def)

lemma verify_decoded:
  assumes "paymentPayload body = Some pp" and "paymentRequirements body = Some reqs"
    and "txHex_of pp = Some txHex" and "deserializeTransaction e txHex = Inr tx"
    and "BigInt (or_default (required_amount reqs) ''0'') = Inr required"
  shows "verify e body =
           (200, if txAmount_of tx < required
                 then VerifyInvalid (''Insufficient: tx='' @ show_bigint (txAmount_of tx)
                                      @ '' required='' @ show_bigint required)
                 else VerifyValid (extractPayer tx))"
  using assms by (simp add: verify_def)

lemmas sample_defs =
  sample_env_def sample_body_def sample_proof_def sample_requirement_def signed_tx_def
  unsigned_tx_def txHex_of_def truthy_val_def truthy_def or_else_def or_default_def

text \<open>
  C4. Once the proof is decoded and the required amount is read, \<open>verify\<close> answers
  by the amount alone: a committed amount strictly below the required one is invalid with
  the reason \<open>Insufficient: tx=... required=...\<close>, and any amount at or above it
  passes, whatever the recipient and the network of the proof or of the requirement are.
\<close>

theorem verify_amount_check:
  assumes "paymentPayload body = Some pp" and "paymentRequirements body = Some reqs"
    and "txHex_of pp = Some txHex" and "deserializeTransaction e txHex = Inr tx"
    and "BigInt (or_default (required_amount reqs) ''0'') = Inr required"
    and "amount (payload tx) = Some a"
  shows "verify e body =
           (200, if uint a < required
                 then VerifyInvalid (''Insufficient: tx='' @ show_bigint (uint a)
                                      @ '' required='' @ show_bigint required)
                 else VerifyValid (extractPayer tx))"
  using verify_decoded [OF assms(1-5)] txAmount_of_Some [OF assms(6)] by simp

theorem verify_amount_check_witness:
  "verify (sample_env (signed_tx 3000) accepted (turns_at ''success'' 0 0)) (sample_body (Some ''5000''))
     = (200, VerifyInvalid ''Insufficient: tx=3000 required=5000'')
   \<and> verify (sample_env (signed_tx 5000) accepted (turns_at ''success'' 0 0)) (sample_body (Some ''5000''))
     = (200, VerifyValid ''ST6d78de7b0625dfbfc16c3a8a5735f6dc3dc3f2'')"
proof -
  have low: "verify (sample_env (signed_tx 3000) accepted (turns_at ''success'' 0 0)) (sample_body (Some ''5000''))
     = (200, VerifyInvalid ''Insufficient: tx=3000 required=5000'')"
    using verify_amount_check [of "sample_body (Some ''5000'')" sample_proof
        "sample_requirement (Some ''5000'')" "''00''"
        "sample_env (signed_tx 3000) accepted (turns_at ''success'' 0 0)" "signed_tx 3000" 5000 3000]
    by (simp add: sample_defs BigInt_5000 show_bigint_3000 show_bigint_5000)
  have enough: "verify (sample_env (signed_tx 5000) accepted (turns_at ''success'' 0 0)) (sample_body (Some ''5000''))
     = (200, VerifyValid ''ST6d78de7b0625dfbfc16c3a8a5735f6dc3dc3f2'')"
    using verify_amount_check [of "sample_body (Some ''5000'')" sample_proof
        "sample_requirement (Some ''5000'')" "''00''"
        "sample_env (signed_tx 5000) accepted (turns_at ''success'' 0 0)" "signed_tx 5000" 5000 5000]
    by (simp add: sample_defs BigInt_5000 extractPayer_def)
  from low enough show ?thesis by simp
qed


text \<open>
  C5, as stated, fails: a proof that commits the required 5000 to \<open>ST2OTHER\<close>
  while the requirement names \<open>ST1PROVIDER\<close> is answered as valid.
\<close>

theorem verify_ignores_recipient_counterexample:
  "recipient (payload (signed_tx 5000)) = Some ''ST2OTHER''
   \<and> payTo (sample_requirement (Some ''5000'')) = Some ''ST1PROVIDER''
   \<and> verify (sample_env (signed_tx 5000) accepted (turns_at ''success'' 0 0)) (sample_body (Some ''5000''))
       = (200, VerifyValid ''ST6d78de7b0625dfbfc16c3a8a5735f6dc3dc3f2'')"
  by (simp add: sample_defs verify_def BigInt_5000 extractPayer_def txAmount_of_def)

text \<open>
  C5, amended. \<open>verify\<close> never compares the destination of the proof with the
  recipient of the requirement: a decodable proof whose amount reaches the required amount
  is valid for every recipient \<open>r2\<close> of the proof and every \<open>payTo\<close> value
  \<open>r\<close> of the requirement.
\<close>

theorem verify_ignores_recipient:
  assumes "paymentPayload body = Some pp"
    and "paymentRequirements body = Some (reqs\<lparr>payTo := r\<rparr>)"
    and "txHex_of pp = Some txHex"
    and "deserializeTransaction e txHex = Inr (tx\<lparr>payload := (payload tx)\<lparr>recipient := r2\<rparr>\<rparr>)"
    and "BigInt (or_default (required_amount reqs) ''0'') = Inr required"
    and "required \<le> txAmount_of tx"
  shows "verify e body = (200, VerifyValid (extractPayer tx))"
proof -
  have "txAmount_of (tx\<lparr>payload := (payload tx)\<lparr>recipient := r2\<rparr>\<rparr>) = txAmount_of tx"
    by (simp add: txAmount_of_def)
  moreover have "extractPayer (tx\<lparr>payload := (payload tx)\<lparr>recipient := r2\<rparr>\<rparr>) = extractPayer tx"
    by (simp add: extractPayer_def)
  moreover have "BigInt (or_default (required_amount (reqs\<lparr>payTo := r\<rparr>)) ''0'') = Inr required"
    using assms(5) by simp
  ultimately show ?thesis
    using verify_decoded [OF assms(1) assms(2) assms(3) assms(4)] assms(6) by simp
qed

theorem verify_ignores_recipient_witness:
  "verify (sample_env (signed_tx 5000) accepted (turns_at ''success'' 0 0)) (sample_body (Some ''5000''))
     = (200, VerifyValid (extractPayer (signed_tx 5000)))"
  using verify_ignores_recipient [where body = "sample_body (Some ''5000'')" and pp = sample_proof
      and reqs = "sample_requirement (Some ''5000'')" and r = "Some ''ST1PROVIDER''"
      and txHex = "''00''" and e = "sample_env (signed_tx 5000) accepted (turns_at ''success'' 0 0)"
      and tx = "signed_tx 5000" and ?r2.0 = "Some ''ST2OTHER''" and required = 5000]
  by (simp add: sample_defs BigInt_5000 txAmount_of_def)

text \<open>
  C9. When \<open>paymentRequirements\<close> has no \<open>amount\<close>, the required amount is
  \<open>BigInt('0')\<close>, and every proof that decodes is valid, however little it transfers.
\<close>

theorem verify_default_amount:
  assumes "paymentPayload body = Some pp" and "paymentRequirements body = Some reqs"
    and "required_amount reqs = None"
    and "txHex_of pp = Some txHex" and "deserializeTransaction e txHex = Inr tx"
  shows "verify e body = (200, VerifyValid (extractPayer tx))"
proof -
  have "BigInt (or_default (required_amount reqs) ''0'') = Inr 0"
    using assms(3) by (simp add: or_default_def BigInt_zero)
  from verify_decoded [OF assms(1) assms(2) assms(4) assms(5) this] txAmount_of_nonneg [of tx]
  show ?thesis by simp
qed

theorem verify_default_amount_witness:
  "verify (sample_env (signed_tx 0) accepted (turns_at ''success'' 0 0)) (sample_body None)
     = (200, VerifyValid ''ST6d78de7b0625dfbfc16c3a8a5735f6dc3dc3f2'')"
  using verify_default_amount [of "sample_body None" sample_proof "sample_requirement None" "''00''"
      "sample_env (signed_tx 0) accepted (turns_at ''success'' 0 0)" "signed_tx 0"]
  by (simp add: sample_defs extractPayer_def)

text \<open>
  C10. A transaction that yields neither a signer nor an address makes
  \<open>extractPayer\<close> return the literal \<open>unknown\<close> instead of failing, and
  \<open>verify\<close> then reports a valid payment whose payer is \<open>unknown\<close>.
\<close>

theorem extractPayer_unknown:
  assumes "\<not> truthy (Option.bind (Option.bind (auth tx) spendingCondition) signer)"
    and "\<not> truthy (Option.bind (Option.bind (auth tx) spendingCondition) address)"
  shows "extractPayer tx = ''unknown''
         \<and> (paymentPayload body = Some pp \<and> paymentRequirements body = Some reqs
              \<and> txHex_of pp = Some txHex \<and> deserializeTransaction e txHex = Inr tx
              \<and> BigInt (or_default (required_amount reqs) ''0'') = Inr required
              \<and> required \<le> txAmount_of tx
            \<longrightarrow> verify e body = (200, VerifyValid ''unknown''))"
proof -
  have unk: "extractPayer tx = ''unknown''"
    using assms by (simp add: extractPayer_def truthy_val_def)
  show ?thesis
  proof (intro conjI impI)
    show "extractPayer tx = ''unknown''" by (rule unk)
  next
    assume h: "paymentPayload body = Some pp \<and> paymentRequirements body = Some reqs
              \<and> txHex_of pp = Some txHex \<and> deserializeTransaction e txHex = Inr tx
              \<and> BigInt (or_default (required_amount reqs) ''0'') = Inr required
              \<and> required \<le> txAmount_of tx"
    then have "verify e body =
           (200, if txAmount_of tx < required
                 then VerifyInvalid (''Insufficient: tx='' @ show_bigint (txAmount_of tx)
                                      @ '' required='' @ show_bigint required)
                 else VerifyValid (extractPayer tx))"
      using verify_decoded [of body pp reqs txHex e tx required] by blast
    with h unk show "verify e body = (200, VerifyValid ''unknown'')" by simp
  qed
qed

theorem extractPayer_unknown_witness:
  "extractPayer unsigned_tx = ''unknown''
   \<and> verify (sample_env unsigned_tx accepted (turns_at ''success'' 0 0)) (sample_body (Some ''5000''))
       = (200, VerifyValid ''unknown'')"
  using extractPayer_unknown [where tx = unsigned_tx and body = "sample_body (Some ''5000'')"
      and pp = sample_proof and reqs = "sample_requirement (Some ''5000'')" and txHex = "''00''"
      and e = "sample_env unsigned_tx accepted (turns_at ''success'' 0 0)" and required = 5000]
  by (simp add: sample_defs BigInt_5000 txAmount_of_def)

section \<open>The settler\<close>

text \<open>
  Once the payload carries a transaction that decodes, \<open>/settle\<close> hands it to the
  broadcast entry point and answers from the broadcast result alone.
\<close>

lemma settle_broadcast_result:
  assumes "paymentPayload body = Some pp" and "paymentRequirements body = Some reqs"
    and "txHex_of pp = Some txHex" and "deserializeTransaction e txHex = Inr tx"
    and "broadcastTransaction e tx (apiUrl_of (networkId_of reqs)) = Inr result"
  shows "settle e w body =
           ((case truthy_val (result_error result) of
               Some er \<Rightarrow> (400, SettleFailure (or_default (result_reason result) er))
             | None \<Rightarrow> (200, SettleSuccess (extractPayer tx) (result_txid result) (networkId_of reqs))),
            w\<lparr>broadcast_log := broadcast_log w @ [(tx, apiUrl_of (networkId_of reqs))]\<rparr>)"
  using assms by (simp add: settle_def Let_def split: option.split)

lemma settle_broadcast_thrown:
  assumes "paymentPayload body = Some pp" and "paymentRequirements body = Some reqs"
    and "txHex_of pp = Some txHex" and "deserializeTransaction e txHex = Inr tx"
    and "broadcastTransaction e tx (apiUrl_of (networkId_of reqs)) = Inl msg"
  shows "settle e w body =
           ((500, SettleFailure msg),
            w\<lparr>broadcast_log := broadcast_log w @ [(tx, apiUrl_of (networkId_of reqs))]\<rparr>)"
  using assms by (simp add: settle_def Let_def)

text \<open>
  Polling against a ledger that turns from \<open>pending\<close> to a terminal status at the
  instant \<open>T\<close>: an abort status ends the loop with \<open>false\<close>; a success status
  is seen exactly when one of the poll instants \<open>elapsed + k * (d + 5000)\<close> lies
  between \<open>T\<close> and the timeout.
\<close>

lemma waitForTx_abort:
  assumes "axios_get e = (\<lambda>u. turns_at final T d)" and "take 5 final = ''abort''"
  shows "waitForTx e apiUrl tid timeoutMs elapsed = False"
  using assms
proof (induction e apiUrl tid timeoutMs elapsed rule: waitForTx.induct)
  case (1 e apiUrl tid timeoutMs elapsed)
  have ne: "final \<noteq> ''success''" using "1.prems"(2) by auto
  show ?case
  proof (cases "elapsed < timeoutMs")
    case False
    then show ?thesis by (simp add: waitForTx.simps)
  next
    case True
    show ?thesis
    proof (cases "elapsed < T")
      case False
      with True "1.prems" ne show ?thesis
        by (subst waitForTx.simps) (simp add: turns_at_def is_abort_def)
    next
      case lt: True
      have "waitForTx e apiUrl tid timeoutMs (elapsed + snd (axios_get e (apiUrl @ ''/extended/v1/tx/'' @ tid) elapsed) + 5000) = False"
        using True lt "1.prems" by (intro "1.IH") (simp_all add: turns_at_def is_abort_def)
      with True lt "1.prems" show ?thesis
        by (subst waitForTx.simps) (simp add: turns_at_def is_abort_def)
    qed
  qed
qed

lemma waitForTx_success:
  assumes "axios_get e = (\<lambda>u. turns_at ''success'' T d)"
  shows "waitForTx e apiUrl tid timeoutMs elapsed =
           (\<exists>k. T \<le> elapsed + k * (d + 5000) \<and> elapsed + k * (d + 5000) < timeoutMs)"
  using assms
proof (induction e apiUrl tid timeoutMs elapsed rule: waitForTx.induct)
  case (1 e apiUrl tid timeoutMs elapsed)
  show ?case
  proof (cases "elapsed < timeoutMs")
    case False
    then have "\<not> (\<exists>k. T \<le> elapsed + k * (d + 5000) \<and> elapsed + k * (d + 5000) < timeoutMs)"
      by auto
    with False show ?thesis by (simp add: waitForTx.simps)
  next
    case True
    show ?thesis
    proof (cases "elapsed < T")
      case False
      then have "T \<le> elapsed + 0 * (d + 5000) \<and> elapsed + 0 * (d + 5000) < timeoutMs"
        using True by simp
      then have ex: "\<exists>k. T \<le> elapsed + k * (d + 5000) \<and> elapsed + k * (d + 5000) < timeoutMs"
        by blast
      have "waitForTx e apiUrl tid timeoutMs elapsed = True"
        using True False "1.prems" by (subst waitForTx.simps) (simp add: turns_at_def)
      with ex show ?thesis by simp
    next
      case lt: True
      have step: "waitForTx e apiUrl tid timeoutMs elapsed
                  = waitForTx e apiUrl tid timeoutMs (elapsed + d + 5000)"
        using True lt "1.prems" by (subst waitForTx.simps) (simp add: turns_at_def is_abort_def)
      have ih: "waitForTx e apiUrl tid timeoutMs (elapsed + d + 5000) =
                (\<exists>k. T \<le> elapsed + d + 5000 + k * (d + 5000) \<and> elapsed + d + 5000 + k * (d + 5000) < timeoutMs)"
        using "1.IH" [of "axios_get e (apiUrl @ ''/extended/v1/tx/'' @ tid) elapsed"] True lt "1.prems"
        by (simp add: turns_at_def is_abort_def)
      have "(\<exists>k. T \<le> elapsed + d + 5000 + k * (d + 5000) \<and> elapsed + d + 5000 + k * (d + 5000) < timeoutMs)
            = (\<exists>k. T \<le> elapsed + k * (d + 5000) \<and> elapsed + k * (d + 5000) < timeoutMs)"
      proof
        assume "\<exists>k. T \<le> elapsed + d + 5000 + k * (d + 5000) \<and> elapsed + d + 5000 + k * (d + 5000) < timeoutMs"
        then obtain k where "T \<le> elapsed + d + 5000 + k * (d + 5000)"
          and "elapsed + d + 5000 + k * (d + 5000) < timeoutMs" by blast
        then have "T \<le> elapsed + Suc k * (d + 5000) \<and> elapsed + Suc k * (d + 5000) < timeoutMs"
          by simp
        then show "\<exists>k. T \<le> elapsed + k * (d + 5000) \<and> elapsed + k * (d + 5000) < timeoutMs"
          by blast
      next
        assume "\<exists>k. T \<le> elapsed + k * (d + 5000) \<and> elapsed + k * (d + 5000) < timeoutMs"
        then obtain k where k: "T \<le> elapsed + k * (d + 5000)"
          "elapsed + k * (d + 5000) < timeoutMs" by blast
        with lt have "k \<noteq> 0" by (cases k) auto
        then obtain j where "k = Suc j" by (cases k) auto
        with k have "T \<le> elapsed + d + 5000 + j * (d + 5000) \<and> elapsed + d + 5000 + j * (d + 5000) < timeoutMs"
          by simp
        then show "\<exists>k. T \<le> elapsed + d + 5000 + k * (d + 5000) \<and> elapsed + d + 5000 + k * (d + 5000) < timeoutMs"
          by blast
      qed
      with step ih show ?thesis by simp
    qed
  qed
qed

lemmas settle_sample_defs =
  networkId_of_def apiUrl_of_def accepted_def rejected_def result_error_def result_txid_def
  result_reason_def STACKS_API_TESTNET_def STACKS_API_MAINNET_def template_def

text \<open>
  C2, as stated, fails: the query ledger already holds a record for the transaction id
  \<open>0xabc\<close>, nothing has been broadcast yet, and \<open>/settle\<close> still hands the
  transaction to the broadcast entry point and answers from the fresh broadcast.
\<close>

theorem settle_rebroadcasts_counterexample:
  "length (records_for recorded_world ''whale-alerts'' (Some ''0xabc'')) = 1
   \<and> broadcast_log recorded_world = []
   \<and> fst (settle (sample_env (signed_tx 5000) accepted (turns_at ''success'' 0 0)) recorded_world
             (sample_body (Some ''5000'')))
       = (200, SettleSuccess ''ST6d78de7b0625dfbfc16c3a8a5735f6dc3dc3f2'' (Some ''0xabc'') ''stacks:2147483648'')
   \<and> broadcast_log (snd (settle (sample_env (signed_tx 5000) accepted (turns_at ''success'' 0 0))
                               recorded_world (sample_body (Some ''5000''))))
       = [(signed_tx 5000, ''https://api.testnet.hiro.so'')]"
proof -
  have rec: "length (records_for recorded_world ''whale-alerts'' (Some ''0xabc'')) = 1"
    by (simp add: records_for_def recorded_world_def recordQuery_def empty_world_def
        truthy_val_def truthy_def Let_def)
  have log: "broadcast_log recorded_world = []"
    by (simp add: recorded_world_def recordQuery_def empty_world_def Let_def)
  have run: "settle (sample_env (signed_tx 5000) accepted (turns_at ''success'' 0 0)) recorded_world
               (sample_body (Some ''5000''))
             = ((200, SettleSuccess ''ST6d78de7b0625dfbfc16c3a8a5735f6dc3dc3f2'' (Some ''0xabc'')
                        ''stacks:2147483648''),
                recorded_world\<lparr>broadcast_log := broadcast_log recorded_world
                                   @ [(signed_tx 5000, ''https://api.testnet.hiro.so'')]\<rparr>)"
    by (subst settle_broadcast_result [where pp = sample_proof
          and reqs = "sample_requirement (Some ''5000'')" and txHex = "''00''"
          and tx = "signed_tx 5000"
          and result = "ResultObject \<lparr>txid = Some ''0xabc'', error = None, reason = None\<rparr>"])
       (simp_all add: sample_defs settle_sample_defs extractPayer_def)
  from rec log run show ?thesis by simp
qed

text \<open>
  C2, amended. \<open>/settle\<close> has no idempotency check: for every payload whose
  transaction decodes it broadcasts exactly once, whatever the query ledger holds; it
  leaves the query ledger as it is, and its answer does not depend on the ledger's rows.
\<close>

theorem settle_always_broadcasts:
  assumes "paymentPayload body = Some pp" and "paymentRequirements body = Some reqs"
    and "txHex_of pp = Some txHex" and "deserializeTransaction e txHex = Inr tx"
  shows "broadcast_log (snd (settle e w body))
           = broadcast_log w @ [(tx, apiUrl_of (networkId_of reqs))]
         \<and> queries (snd (settle e w body)) = queries w
         \<and> fst (settle e (w\<lparr>queries := qs\<rparr>) body) = fst (settle e w body)"
proof (cases "broadcastTransaction e tx (apiUrl_of (networkId_of reqs))")
  case (Inl msg)
  show ?thesis
    by (simp add: settle_broadcast_thrown [OF assms Inl])
next
  case (Inr result)
  show ?thesis
    by (simp add: settle_broadcast_result [OF assms Inr])
qed

theorem settle_always_broadcasts_witness:
  "broadcast_log (snd (settle (sample_env (signed_tx 5000) accepted (turns_at ''success'' 0 0))
                         recorded_world (sample_body (Some ''5000''))))
     = broadcast_log recorded_world @ [(signed_tx 5000, ''https://api.testnet.hiro.so'')]
   \<and> queries (snd (settle (sample_env (signed_tx 5000) accepted (turns_at ''success'' 0 0))
                       recorded_world (sample_body (Some ''5000'')))) = queries recorded_world"
  using settle_always_broadcasts [where body = "sample_body (Some ''5000'')" and pp = sample_proof
      and reqs = "sample_requirement (Some ''5000'')" and txHex = "''00''"
      and e = "sample_env (signed_tx 5000) accepted (turns_at ''success'' 0 0)"
      and tx = "signed_tx 5000" and w = recorded_world and qs = "[]"]
  by (simp add: sample_defs settle_sample_defs)


text \<open>
  C3, as stated, fails: against a ledger that reports \<open>abort_by_response\<close> the
  polling returns \<open>false\<close>, and \<open>/settle\<close> answers 200 with
  \<open>success: true\<close>, the very answer it gives when the ledger reports
  \<open>success\<close>. The answer has no field for a finality state.
\<close>

theorem settle_abort_counterexample:
  "waitForTx (sample_env (signed_tx 5000) accepted (turns_at ''abort_by_response'' 0 0))
       ''https://api.testnet.hiro.so'' ''0xabc'' 180000 0 = False
   \<and> fst (settle (sample_env (signed_tx 5000) accepted (turns_at ''abort_by_response'' 0 0)) empty_world
             (sample_body (Some ''5000'')))
       = (200, SettleSuccess ''ST6d78de7b0625dfbfc16c3a8a5735f6dc3dc3f2'' (Some ''0xabc'') ''stacks:2147483648'')
   \<and> fst (settle (sample_env (signed_tx 5000) accepted (turns_at ''success'' 0 0)) empty_world
             (sample_body (Some ''5000'')))
       = (200, SettleSuccess ''ST6d78de7b0625dfbfc16c3a8a5735f6dc3dc3f2'' (Some ''0xabc'') ''stacks:2147483648'')"
proof -
  have poll: "waitForTx (sample_env (signed_tx 5000) accepted (turns_at ''abort_by_response'' 0 0))
       ''https://api.testnet.hiro.so'' ''0xabc'' 180000 0 = False"
    by (subst waitForTx.simps) (simp add: sample_env_def turns_at_def is_abort_def)
  have run: "fst (settle (sample_env (signed_tx 5000) accepted (turns_at final 0 0)) empty_world
             (sample_body (Some ''5000'')))
       = (200, SettleSuccess ''ST6d78de7b0625dfbfc16c3a8a5735f6dc3dc3f2'' (Some ''0xabc'') ''stacks:2147483648'')"
    for final
    by (subst settle_broadcast_result [where pp = sample_proof
          and reqs = "sample_requirement (Some ''5000'')" and txHex = "''00''"
          and tx = "signed_tx 5000"
          and result = "ResultObject \<lparr>txid = Some ''0xabc'', error = None, reason = None\<rparr>"])
       (simp_all add: sample_defs settle_sample_defs extractPayer_def)
  from poll run [of "''abort_by_response''"] run [of "''success''"] show ?thesis by simp
qed

text \<open>
  C3, amended. When the broadcast is accepted and the ledger reports a terminal abort
  status, \<open>waitForTx\<close> returns \<open>false\<close>, and \<open>/settle\<close> answers 200 with
  \<open>success: true\<close>, the payer, the transaction id and the network: the same answer
  as for a ledger that reports \<open>success\<close> at the same instant.
\<close>

theorem settle_after_abort:
  assumes "paymentPayload body = Some pp" and "paymentRequirements body = Some reqs"
    and "txHex_of pp = Some txHex" and "deserializeTransaction e txHex = Inr tx"
    and "broadcastTransaction e tx (apiUrl_of (networkId_of reqs)) = Inr result"
    and "truthy_val (result_error result) = None"
    and "axios_get e = (\<lambda>u. turns_at final T d)" and "take 5 final = ''abort''"
  shows "waitForTx e (apiUrl_of (networkId_of reqs)) (template (result_txid result)) 180000 0 = False
         \<and> fst (settle e w body)
             = (200, SettleSuccess (extractPayer tx) (result_txid result) (networkId_of reqs))
         \<and> fst (settle (e\<lparr>axios_get := \<lambda>u. turns_at ''success'' T d\<rparr>) w body) = fst (settle e w body)"
proof -
  have poll: "waitForTx e (apiUrl_of (networkId_of reqs)) (template (result_txid result)) 180000 0 = False"
    by (rule waitForTx_abort [OF assms(7) assms(8)])
  have here: "fst (settle e w body)
             = (200, SettleSuccess (extractPayer tx) (result_txid result) (networkId_of reqs))"
    by (simp add: settle_broadcast_result [OF assms(1-5)] assms(6))
  have "deserializeTransaction (e\<lparr>axios_get := \<lambda>u. turns_at ''success'' T d\<rparr>) txHex = Inr tx"
    and "broadcastTransaction (e\<lparr>axios_get := \<lambda>u. turns_at ''success'' T d\<rparr>) tx
           (apiUrl_of (networkId_of reqs)) = Inr result"
    using assms(4) assms(5) by simp_all
  then have there: "fst (settle (e\<lparr>axios_get := \<lambda>u. turns_at ''success'' T d\<rparr>) w body)
             = (200, SettleSuccess (extractPayer tx) (result_txid result) (networkId_of reqs))"
    by (simp add: settle_broadcast_result [OF assms(1-3)] assms(6))
  from poll here there show ?thesis by simp
qed

theorem settle_after_abort_witness:
  "waitForTx (sample_env (signed_tx 5000) accepted (turns_at ''abort_by_post_condition'' 7000 300))
       ''https://api.testnet.hiro.so'' ''0xabc'' 180000 0 = False
   \<and> fst (settle (sample_env (signed_tx 5000) accepted (turns_at ''abort_by_post_condition'' 7000 300))
             empty_world (sample_body (Some ''5000'')))
       = (200, SettleSuccess ''ST6d78de7b0625dfbfc16c3a8a5735f6dc3dc3f2'' (Some ''0xabc'') ''stacks:2147483648'')"
  using settle_after_abort [where body = "sample_body (Some ''5000'')" and pp = sample_proof
      and reqs = "sample_requirement (Some ''5000'')" and txHex = "''00''"
      and e = "sample_env (signed_tx 5000) accepted (turns_at ''abort_by_post_condition'' 7000 300)"
      and tx = "signed_tx 5000" and w = empty_world
      and result = "ResultObject \<lparr>txid = Some ''0xabc'', error = None, reason = None\<rparr>"
      and final = "''abort_by_post_condition''" and T = 7000 and d = 300]
  by (simp add: sample_defs settle_sample_defs extractPayer_def)

text \<open>
  C6. When the ledger rejects the broadcast of a valid proof, \<open>/settle\<close> answers 400
  with \<open>success: false\<close> and the rejection reason after one single broadcast, the
  access gate denies the request with that reason, and the query ledger is unchanged.
\<close>

theorem settle_rejected_denied:
  assumes "txHex_of pp = Some txHex" and "deserializeTransaction e txHex = Inr tx"
    and "broadcastTransaction e tx (apiUrl_of (networkId_of reqs)) = Inr result"
    and "result_error result = Some er" and "er \<noteq> []"
    and "snd (verify e \<lparr>paymentPayload = Some pp, paymentRequirements = Some reqs\<rparr>) = VerifyValid p"
  shows "settle e w \<lparr>paymentPayload = Some pp, paymentRequirements = Some reqs\<rparr>
           = ((400, SettleFailure (or_default (result_reason result) er)),
              w\<lparr>broadcast_log := broadcast_log w @ [(tx, apiUrl_of (networkId_of reqs))]\<rparr>)
         \<and> access_gate reqs handler e w (Some pp)
             = (DENIED (or_default (result_reason result) er),
                w\<lparr>broadcast_log := broadcast_log w @ [(tx, apiUrl_of (networkId_of reqs))]\<rparr>)
         \<and> queries (snd (access_gate reqs handler e w (Some pp))) = queries w"
proof -
  let ?body = "\<lparr>paymentPayload = Some pp, paymentRequirements = Some reqs\<rparr>"
  have tv: "truthy_val (result_error result) = Some er"
    using assms(4) assms(5) by (simp add: truthy_val_def truthy_def)
  have st: "settle e w ?body
           = ((400, SettleFailure (or_default (result_reason result) er)),
              w\<lparr>broadcast_log := broadcast_log w @ [(tx, apiUrl_of (networkId_of reqs))]\<rparr>)"
    by (subst settle_broadcast_result [where pp = pp and reqs = reqs and txHex = txHex and tx = tx
          and result = result]) (simp_all add: assms(1-3) tv)
  have gate: "access_gate reqs handler e w (Some pp)
             = (DENIED (or_default (result_reason result) er),
                w\<lparr>broadcast_log := broadcast_log w @ [(tx, apiUrl_of (networkId_of reqs))]\<rparr>)"
    by (simp add: access_gate_def Let_def assms(6) st)
  from st gate show ?thesis by simp
qed

theorem settle_rejected_denied_witness:
  "settle (sample_env (signed_tx 5000) rejected (turns_at ''success'' 0 0)) empty_world
       (sample_body (Some ''5000''))
     = ((400, SettleFailure ''ConflictingNonceInMempool''),
        empty_world\<lparr>broadcast_log := [(signed_tx 5000, ''https://api.testnet.hiro.so'')]\<rparr>)
   \<and> fst (access_gate (sample_requirement (Some ''5000'')) feeds_whale_alerts
            (sample_env (signed_tx 5000) rejected (turns_at ''success'' 0 0)) empty_world (Some sample_proof))
       = DENIED ''ConflictingNonceInMempool''
   \<and> queries (snd (access_gate (sample_requirement (Some ''5000'')) feeds_whale_alerts
            (sample_env (signed_tx 5000) rejected (turns_at ''success'' 0 0)) empty_world (Some sample_proof)))
       = []"
proof -
  have valid: "snd (verify (sample_env (signed_tx 5000) rejected (turns_at ''success'' 0 0))
                 \<lparr>paymentPayload = Some sample_proof,
                    paymentRequirements = Some (sample_requirement (Some ''5000''))\<rparr>)
               = VerifyValid ''ST6d78de7b0625dfbfc16c3a8a5735f6dc3dc3f2''"
    by (simp add: verify_def sample_defs BigInt_5000 txAmount_of_def extractPayer_def)
  have log: "broadcast_log empty_world = []" and qs: "queries empty_world = []"
    by (simp_all add: empty_world_def)
  show ?thesis
    using settle_rejected_denied [where pp = sample_proof and txHex = "''00''"
      and e = "sample_env (signed_tx 5000) rejected (turns_at ''success'' 0 0)"
      and tx = "signed_tx 5000" and reqs = "sample_requirement (Some ''5000'')"
      and result = "ResultObject \<lparr>txid = None, error = Some ''transaction rejected'',
                                  reason = Some ''ConflictingNonceInMempool''\<rparr>"
      and er = "''transaction rejected''" and p = "''ST6d78de7b0625dfbfc16c3a8a5735f6dc3dc3f2''"
      and w = empty_world and handler = feeds_whale_alerts, OF _ _ _ _ _ valid]
    by (simp add: sample_defs settle_sample_defs log qs)
qed

text \<open>
  C7, as stated, fails: the ledger finalizes at 2000 ms; with the timeout 1000 the polling
  returns \<open>false\<close>, and with the timeout 3000 it returns \<open>false\<close> as well, since
  the only poll before 3000 ms is the one at 0 ms.
\<close>

theorem waitForTx_timeouts_counterexample:
  "(1000::nat) < 2000 \<and> (2000::nat) < 3000
   \<and> waitForTx (finalizing_env 2000 0) ''https://api.testnet.hiro.so'' ''0xabc'' 1000 0 = False
   \<and> waitForTx (finalizing_env 2000 0) ''https://api.testnet.hiro.so'' ''0xabc'' 3000 0 = False"
  by (simp add: waitForTx.simps finalizing_env_def sample_env_def turns_at_def is_abort_def)

text \<open>
  C7, amended. For \<open>T1 < T < T2\<close> and a ledger that reports success from \<open>T\<close>
  on, \<open>waitForTx\<close> with the timeout \<open>T1\<close> returns \<open>false\<close>, and with the
  timeout \<open>T2\<close> it returns \<open>true\<close> exactly when a poll instant
  \<open>k * (d + 5000)\<close> lies in the interval from \<open>T\<close> up to, not including,
  \<open>T2\<close>, where \<open>d\<close> is the duration of a status request.
\<close>

theorem waitForTx_timeouts:
  assumes "T1 < T" and "T < T2"
  shows "waitForTx (finalizing_env T d) apiUrl tid T1 0 = False
         \<and> waitForTx (finalizing_env T d) apiUrl tid T2 0
             = (\<exists>k. T \<le> k * (d + 5000) \<and> k * (d + 5000) < T2)"
proof -
  have ax: "axios_get (finalizing_env T d) = (\<lambda>u. turns_at ''success'' T d)"
    by (simp add: finalizing_env_def sample_env_def)
  have "\<not> (\<exists>k. T \<le> 0 + k * (d + 5000) \<and> 0 + k * (d + 5000) < T1)"
    using assms(1) by auto
  then have short: "waitForTx (finalizing_env T d) apiUrl tid T1 0 = False"
    by (simp only: waitForTx_success [OF ax])
  have long: "waitForTx (finalizing_env T d) apiUrl tid T2 0
             = (\<exists>k. T \<le> k * (d + 5000) \<and> k * (d + 5000) < T2)"
    using waitForTx_success [OF ax, of apiUrl tid T2 0] by simp
  from short long show ?thesis by simp
qed

theorem waitForTx_timeouts_witness:
  "waitForTx (finalizing_env 2000 0) ''https://api.testnet.hiro.so'' ''0xabc'' 1000 0 = False
   \<and> waitForTx (finalizing_env 2000 0) ''https://api.testnet.hiro.so'' ''0xabc'' 6000 0 = True"
proof -
  have "\<exists>k::nat. 2000 \<le> k * (0 + 5000) \<and> k * (0 + 5000) < 6000"
    by (rule exI [of _ 1]) simp
  with waitForTx_timeouts [of 1000 2000 6000 0 "''https://api.testnet.hiro.so''" "''0xabc''"]
  show ?thesis by simp
qed

section \<open>The query ledger and the wallet route\<close>

lemma queries_recordQuery:
  "queries (recordQuery w f p t ms d)
     = queries w @ [\<lparr>row_id = last_rowid w + 1, feed_id = f, payer = truthy_val p,
                      tx_hash = truthy_val t, response_ms = ms,
                      response_data = map_option stringify d, created_at = unixepoch w\<rparr>]"
  by (simp add: recordQuery_def Let_def)

lemma broadcast_log_recordQuery: "broadcast_log (recordQuery w f p t ms d) = broadcast_log w"
  by (simp add: recordQuery_def Let_def)

lemma truthy_val_Some: "s \<noteq> [] \<Longrightarrow> truthy_val (Some s) = Some s"
  by (simp add: truthy_val_def truthy_def)



text \<open>
  C8. A request to \<open>POST /wallet/buy\<close> with a known feed id and non-empty
  \<open>txId\<close> and \<open>senderAddress\<close> is answered with the data that the generator of
  the requested feed returns (\<open>generateWhaleAlerts\<close> for \<open>whale-alerts\<close>,
  \<open>generateSentimentScore\<close> for \<open>btc-sentiment\<close>, \<open>generateDeFiScores\<close> for
  \<open>defi-scores\<close>) and appends a record with that \<open>txId\<close> and
  \<open>senderAddress\<close>. Nothing is broadcast, and the outcome does not depend on the
  transaction decoder, the broadcast entry point or the status endpoint: no payment is
  verified or settled.
\<close>

theorem wallet_buy_releases_unverified:
  assumes "feedId req = Some f" and "f \<in> set validFeeds"
    and "txId req = Some t" and "t \<noteq> []"
    and "senderAddress req = Some s" and "s \<noteq> []"
    and "(f = ''whale-alerts'' \<and> generateWhaleAlerts e = Inr d)
         \<or> (f = ''btc-sentiment'' \<and> generateSentimentScore e = Inr d)
         \<or> (f = ''defi-scores'' \<and> generateDeFiScores e = Inr d)"
  shows "wallet_buy e w req
           = ((200, WalletOk \<lparr>feed = f, provider = PROVIDER_ADDRESS e, price = feedPrices f,
                               timestamp = date_now e, paid_by = s, json_tx = Some t,
                               tx_explorer = Some (''https://explorer.hiro.so/txid/'' @ t
                                                    @ ''?chain='' @ NETWORK e),
                               wallet_payment = Some True, data = d\<rparr>),
              recordQuery w f (Some s) (Some t) (responseMs e) (Some d))
         \<and> queries (snd (wallet_buy e w req))
             = queries w @ [\<lparr>row_id = last_rowid w + 1, feed_id = f, payer = Some s,
                              tx_hash = Some t, response_ms = responseMs e,
                              response_data = Some (stringify d), created_at = unixepoch w\<rparr>]
         \<and> broadcast_log (snd (wallet_buy e w req)) = broadcast_log w
         \<and> wallet_buy (e\<lparr>deserializeTransaction := dec, broadcastTransaction := bc, axios_get := ag\<rparr>) w req
             = wallet_buy e w req"
proof -
  have fne: "f \<noteq> []" using assms(2) by (auto simp: validFeeds_def)
  have tv: "truthy_val (feedId req) = Some f" "truthy_val (txId req) = Some t"
    "truthy_val (senderAddress req) = Some s"
    using assms(1,3,4,5,6) fne by (simp_all add: truthy_val_Some)
  have gen: "generate_feed e f = Inr d"
    using assms(7) by (auto simp: generate_feed_def)
  have run: "wallet_buy e w req
           = ((200, WalletOk \<lparr>feed = f, provider = PROVIDER_ADDRESS e, price = feedPrices f,
                               timestamp = date_now e, paid_by = s, json_tx = Some t,
                               tx_explorer = Some (''https://explorer.hiro.so/txid/'' @ t
                                                    @ ''?chain='' @ NETWORK e),
                               wallet_payment = Some True, data = d\<rparr>),
              recordQuery w f (Some s) (Some t) (responseMs e) (Some d))"
    using assms(2) gen by (simp add: wallet_buy_def tv Let_def)
  have indep: "wallet_buy (e\<lparr>deserializeTransaction := dec, broadcastTransaction := bc, axios_get := ag\<rparr>) w req
             = wallet_buy e w req"
    by (simp add: wallet_buy_def generate_feed_def split: option.split sum.split)
  have rows: "queries (snd (wallet_buy e w req))
             = queries w @ [\<lparr>row_id = last_rowid w + 1, feed_id = f, payer = Some s,
                              tx_hash = Some t, response_ms = responseMs e,
                              response_data = Some (stringify d), created_at = unixepoch w\<rparr>]"
    using assms(4) assms(6) by (simp add: run queries_recordQuery truthy_val_Some)
  have log: "broadcast_log (snd (wallet_buy e w req)) = broadcast_log w"
    by (simp add: run broadcast_log_recordQuery)
  from run rows log indep show ?thesis by simp
qed

text \<open>
  The three feeds at a sample request each: the answer and the appended record carry the
  data of the generator that belongs to the requested feed.
\<close>

theorem wallet_buy_releases_unverified_witness:
  "fst (wallet_buy (finalizing_env 0 0) empty_world sample_purchase)
     = (200, WalletOk \<lparr>feed = ''whale-alerts'', provider = ''ST1PROVIDER'', price = Some ''0.005 STX'',
                         timestamp = 1700000000000, paid_by = ''ST3BUYER'', json_tx = Some ''0xabc'',
                         tx_explorer = Some ''https://explorer.hiro.so/txid/0xabc?chain=testnet'',
                         wallet_payment = Some True, data = FeedData ''whales''\<rparr>)
   \<and> queries (snd (wallet_buy (finalizing_env 0 0) empty_world sample_purchase))
       = [\<lparr>row_id = 1, feed_id = ''whale-alerts'', payer = Some ''ST3BUYER'', tx_hash = Some ''0xabc'',
            response_ms = 12, response_data = Some ''whales'', created_at = 1700000000\<rparr>]
   \<and> broadcast_log (snd (wallet_buy (finalizing_env 0 0) empty_world sample_purchase)) = []
   \<and> fst (wallet_buy (finalizing_env 0 0) empty_world (sample_purchase\<lparr>feedId := Some ''btc-sentiment''\<rparr>))
     = (200, WalletOk \<lparr>feed = ''btc-sentiment'', provider = ''ST1PROVIDER'', price = Some ''0.003 STX'',
                         timestamp = 1700000000000, paid_by = ''ST3BUYER'', json_tx = Some ''0xabc'',
                         tx_explorer = Some ''https://explorer.hiro.so/txid/0xabc?chain=testnet'',
                         wallet_payment = Some True, data = FeedData ''sentiment''\<rparr>)
   \<and> queries (snd (wallet_buy (finalizing_env 0 0) empty_world
                       (sample_purchase\<lparr>feedId := Some ''btc-sentiment''\<rparr>)))
       = [\<lparr>row_id = 1, feed_id = ''btc-sentiment'', payer = Some ''ST3BUYER'', tx_hash = Some ''0xabc'',
            response_ms = 12, response_data = Some ''sentiment'', created_at = 1700000000\<rparr>]
   \<and> fst (wallet_buy (finalizing_env 0 0) empty_world (sample_purchase\<lparr>feedId := Some ''defi-scores''\<rparr>))
     = (200, WalletOk \<lparr>feed = ''defi-scores'', provider = ''ST1PROVIDER'', price = Some ''0.01 STX'',
                         timestamp = 1700000000000, paid_by = ''ST3BUYER'', json_tx = Some ''0xabc'',
                         tx_explorer = Some ''https://explorer.hiro.so/txid/0xabc?chain=testnet'',
                         wallet_payment = Some True, data = FeedData ''defi''\<rparr>)
   \<and> queries (snd (wallet_buy (finalizing_env 0 0) empty_world
                       (sample_purchase\<lparr>feedId := Some ''defi-scores''\<rparr>)))
       = [\<lparr>row_id = 1, feed_id = ''defi-scores'', payer = Some ''ST3BUYER'', tx_hash = Some ''0xabc'',
            response_ms = 12, response_data = Some ''defi'', created_at = 1700000000\<rparr>]"
proof -
  let ?e = "finalizing_env 0 0"
  have gens: "generateWhaleAlerts ?e = Inr (FeedData ''whales'')"
    "generateSentimentScore ?e = Inr (FeedData ''sentiment'')"
    "generateDeFiScores ?e = Inr (FeedData ''defi'')"
    by (simp_all add: finalizing_env_def sample_env_def)
  have env: "PROVIDER_ADDRESS ?e = ''ST1PROVIDER''" "NETWORK ?e = ''testnet''"
    "date_now ?e = 1700000000000" "responseMs ?e = 12"
    by (simp_all add: finalizing_env_def sample_env_def)
  have world: "queries empty_world = []" "last_rowid empty_world = 0"
    "unixepoch empty_world = 1700000000" "broadcast_log empty_world = []"
    by (simp_all add: empty_world_def)
  have price: "feedPrices ''whale-alerts'' = Some ''0.005 STX''"
    "feedPrices ''btc-sentiment'' = Some ''0.003 STX''"
    "feedPrices ''defi-scores'' = Some ''0.01 STX''"
    by (simp_all add: feedPrices_def)
  note eval = env world price queries_recordQuery broadcast_log_recordQuery truthy_val_def truthy_def
  have whales:
    "fst (wallet_buy ?e empty_world sample_purchase)
       = (200, WalletOk \<lparr>feed = ''whale-alerts'', provider = ''ST1PROVIDER'', price = Some ''0.005 STX'',
                         timestamp = 1700000000000, paid_by = ''ST3BUYER'', json_tx = Some ''0xabc'',
                         tx_explorer = Some ''https://explorer.hiro.so/txid/0xabc?chain=testnet'',
                         wallet_payment = Some True, data = FeedData ''whales''\<rparr>)
     \<and> queries (snd (wallet_buy ?e empty_world sample_purchase))
       = [\<lparr>row_id = 1, feed_id = ''whale-alerts'', payer = Some ''ST3BUYER'', tx_hash = Some ''0xabc'',
            response_ms = 12, response_data = Some ''whales'', created_at = 1700000000\<rparr>]
     \<and> broadcast_log (snd (wallet_buy ?e empty_world sample_purchase)) = []"
    using wallet_buy_releases_unverified [where req = sample_purchase and f = "''whale-alerts''"
        and t = "''0xabc''" and s = "''ST3BUYER''" and e = ?e and d = "FeedData ''whales''"
        and w = empty_world and dec = "deserializeTransaction ?e"
        and bc = "broadcastTransaction ?e" and ag = "axios_get ?e"]
    by (simp add: sample_purchase_def validFeeds_def gens eval)
  have sentiment:
    "fst (wallet_buy ?e empty_world (sample_purchase\<lparr>feedId := Some ''btc-sentiment''\<rparr>))
       = (200, WalletOk \<lparr>feed = ''btc-sentiment'', provider = ''ST1PROVIDER'', price = Some ''0.003 STX'',
                         timestamp = 1700000000000, paid_by = ''ST3BUYER'', json_tx = Some ''0xabc'',
                         tx_explorer = Some ''https://explorer.hiro.so/txid/0xabc?chain=testnet'',
                         wallet_payment = Some True, data = FeedData ''sentiment''\<rparr>)
     \<and> queries (snd (wallet_buy ?e empty_world (sample_purchase\<lparr>feedId := Some ''btc-sentiment''\<rparr>)))
       = [\<lparr>row_id = 1, feed_id = ''btc-sentiment'', payer = Some ''ST3BUYER'', tx_hash = Some ''0xabc'',
            response_ms = 12, response_data = Some ''sentiment'', created_at = 1700000000\<rparr>]"
    using wallet_buy_releases_unverified [where req = "sample_purchase\<lparr>feedId := Some ''btc-sentiment''\<rparr>"
        and f = "''btc-sentiment''"
        and t = "''0xabc''" and s = "''ST3BUYER''" and e = ?e and d = "FeedData ''sentiment''"
        and w = empty_world and dec = "deserializeTransaction ?e"
        and bc = "broadcastTransaction ?e" and ag = "axios_get ?e"]
    by (simp add: sample_purchase_def validFeeds_def gens eval)
  have defi:
    "fst (wallet_buy ?e empty_world (sample_purchase\<lparr>feedId := Some ''defi-scores''\<rparr>))
       = (200, WalletOk \<lparr>feed = ''defi-scores'', provider = ''ST1PROVIDER'', price = Some ''0.01 STX'',
                         timestamp = 1700000000000, paid_by = ''ST3BUYER'', json_tx = Some ''0xabc'',
                         tx_explorer = Some ''https://explorer.hiro.so/txid/0xabc?chain=testnet'',
                         wallet_payment = Some True, data = FeedData ''defi''\<rparr>)
     \<and> queries (snd (wallet_buy ?e empty_world (sample_purchase\<lparr>feedId := Some ''defi-scores''\<rparr>)))
       = [\<lparr>row_id = 1, feed_id = ''defi-scores'', payer = Some ''ST3BUYER'', tx_hash = Some ''0xabc'',
            response_ms = 12, response_data = Some ''defi'', created_at = 1700000000\<rparr>]"
    using wallet_buy_releases_unverified [where req = "sample_purchase\<lparr>feedId := Some ''defi-scores''\<rparr>"
        and f = "''defi-scores''"
        and t = "''0xabc''" and s = "''ST3BUYER''" and e = ?e and d = "FeedData ''defi''"
        and w = empty_world and dec = "deserializeTransaction ?e"
        and bc = "broadcastTransaction ?e" and ag = "axios_get ?e"]
    by (simp add: sample_purchase_def validFeeds_def gens eval)
  from whales sentiment defi show ?thesis by blast
qed

end
